theory Spec2Isabelle
  imports Main "HOL-Library.AList" "HOL-Library.Sublist"
begin

section \<open>JSON values as the handlers see them\<close>

text \<open>
  Every value the server handles is parsed JSON: request bodies, and the documents the
  key-value store keeps. Objects are kept as lists of members; a member name is looked
  up at its first binding. JavaScript's \<^verbatim>\<open>undefined\<close> is \<open>None\<close> of type
  \<open>json option\<close>.

  Numbers are restricted to the safe integers, those of magnitude at most
  \<^verbatim>\<open>Number.MAX_SAFE_INTEGER\<close>: JavaScript holds each of them exactly and prints it in
  plain decimal. Fractions and larger numbers are outside the model.
\<close>

typedef safe_int = "{n :: int. - 9007199254740991 \<le> n \<and> n \<le> 9007199254740991}"
  morphisms number_value Safe_int
  by (rule exI [of _ 0]) simp

setup_lifting type_definition_safe_int

instantiation safe_int :: equal
begin

lift_definition equal_safe_int :: "safe_int \<Rightarrow> safe_int \<Rightarrow> bool" is "(=)" .

instance
  by standard (transfer, simp)

end

datatype json =
    JNull
  | JBool bool
  | JNum safe_int
  | JStr string
  | JArr "json list"
  | JObj "(string \<times> json) list"

text \<open>Truthiness, as \<^verbatim>\<open>!x\<close>, \<^verbatim>\<open>x && y\<close> and \<^verbatim>\<open>x || y\<close> test it.\<close>

fun truthy :: "json option \<Rightarrow> bool" where
  "truthy None = False"
| "truthy (Some JNull) = False"
| "truthy (Some (JBool b)) = b"
| "truthy (Some (JNum n)) = (number_value n \<noteq> 0)"
| "truthy (Some (JStr s)) = (s \<noteq> [])"
| "truthy (Some (JArr xs)) = True"
| "truthy (Some (JObj ms)) = True"

text \<open>
  \<^verbatim>\<open>a === b\<close> on two values that were parsed separately (a request body against a
  stored document, or two stored documents): primitives are compared by value, and an
  array or object is never identical to another one.
\<close>

fun strict_eq :: "json option \<Rightarrow> json option \<Rightarrow> bool" where
  "strict_eq None None = True"
| "strict_eq (Some JNull) (Some JNull) = True"
| "strict_eq (Some (JBool a)) (Some (JBool b)) = (a = b)"
| "strict_eq (Some (JNum a)) (Some (JNum b)) = (a = b)"
| "strict_eq (Some (JStr a)) (Some (JStr b)) = (a = b)"
| "strict_eq _ _ = False"

text \<open>
  The decimal text of a number, as a template literal prints \<^verbatim>\<open>Date.now()\<close>
  or an array index.
\<close>

definition digit :: "int \<Rightarrow> char" where
  "digit d = ''0123456789'' ! nat d"

function show_digits :: "int \<Rightarrow> string" where
  "show_digits n =
     (if n < 10 then [digit n] else show_digits (n div 10) @ [digit (n mod 10)])"
  by pat_completeness auto
termination
  by (relation "measure nat") auto

declare show_digits.simps [simp del]

definition show_int :: "int \<Rightarrow> string" where
  "show_int i = (if i < 0 then CHR ''-'' # show_digits (- i) else show_digits i)"

definition show_index :: "nat \<Rightarrow> string" where
  "show_index i = show_int (int i)"

fun join_comma :: "string list \<Rightarrow> string" where
  "join_comma [] = []"
| "join_comma [s] = s"
| "join_comma (s # t # ss) = s @ CHR '','' # join_comma (t # ss)"

text \<open>
  The string a template literal \<^verbatim>\<open>`${v}`\<close> puts in for a value. An array prints
  its elements separated by commas, a null element as nothing.
\<close>

fun template_json :: "json \<Rightarrow> string" where
  "template_json JNull = ''null''"
| "template_json (JBool b) = (if b then ''true'' else ''false'')"
| "template_json (JNum n) = show_int (number_value n)"
| "template_json (JStr s) = s"
| "template_json (JArr xs) = join_comma (map (\<lambda>x. if x = JNull then [] else template_json x) xs)"
| "template_json (JObj ms) = ''[object Object]''"

definition template :: "json option \<Rightarrow> string" where
  "template v = (case v of None \<Rightarrow> ''undefined'' | Some x \<Rightarrow> template_json x)"

text \<open>
  The own enumerable properties of a value, which is what object spread
  \<^verbatim>\<open>{...v}\<close> copies: the members of an object, the indexed elements of an array,
  the indexed characters of a string, and nothing for null, a boolean or a number.
\<close>

fun props :: "json \<Rightarrow> (string \<times> json) list" where
  "props (JObj ms) = ms"
| "props (JArr xs) = zip (map show_index [0..<length xs]) xs"
| "props (JStr s) = zip (map show_index [0..<length s]) (map (\<lambda>c. JStr [c]) s)"
| "props _ = []"

text \<open>Property access \<^verbatim>\<open>v.name\<close> on a non-null value.\<close>

definition field :: "json \<Rightarrow> string \<Rightarrow> json option" where
  "field v name = map_of (props v) name"

text \<open>
  An object literal whose member values may be \<^verbatim>\<open>undefined\<close>: serialising it
  (into a response, or into the store) leaves those members out.
\<close>

definition obj :: "(string \<times> json option) list \<Rightarrow> json" where
  "obj ms = JObj (List.map_filter (\<lambda>(k, v). map_option (Pair k) v) ms)"

text \<open>
  Object spread \<^verbatim>\<open>{ ...a, ...b }\<close>: the members of \<open>b\<close> replace those of \<open>a\<close>, which
  stay where they are, and the members only \<open>b\<close> has are added. The order in which
  JavaScript enumerates the added members, and its placing of integer-like names first,
  are not modelled.
\<close>

definition spread2 :: "json \<Rightarrow> json \<Rightarrow> json" where
  "spread2 a b = JObj (AList.merge (props a) (props b))"

section \<open>The key-value store\<close>

text \<open>
  The server keeps its data through the module \<^verbatim>\<open>kv_store.tsx\<close>, whose code is not
  available. The spec describes it as a generic get/set/delete/prefix-scan over string
  keys to JSON values, with keys \<^verbatim>\<open>student:<id>\<close> and \<^verbatim>\<open>attendance:<id>\<close>. The store is a
  list of rows, a row being a key with its value. Storage failures are not modelled.
\<close>

type_synonym kv = "(string \<times> json) list"

text \<open>
  Modelled from the spec: \<^verbatim>\<open>get\<close> of the missing \<^verbatim>\<open>kv_store.tsx\<close>, the value kept
  under a key, or nothing.
\<close>

definition kv_get :: "kv \<Rightarrow> string \<Rightarrow> json option" where
  "kv_get store key = map_of store key"

text \<open>
  Modelled from the spec: \<^verbatim>\<open>set\<close> of the missing \<^verbatim>\<open>kv_store.tsx\<close>, which replaces
  the value of a key that has a row and adds a row for a key that has none.
\<close>

definition kv_set :: "kv \<Rightarrow> string \<Rightarrow> json \<Rightarrow> kv" where
  "kv_set store key v = AList.update key v store"


text \<open>
  Modelled from the spec: \<^verbatim>\<open>getByPrefix\<close> of the missing \<^verbatim>\<open>kv_store.tsx\<close>, the rows
  whose key starts with the prefix, in the order of the store, each with its
  \<^verbatim>\<open>value\<close>, which is how the handlers read them (\<^verbatim>\<open>item.value\<close>).
\<close>

definition kv_getByPrefix :: "kv \<Rightarrow> string \<Rightarrow> (string \<times> json) list" where
  "kv_getByPrefix store p = filter (\<lambda>item. prefix p (fst item)) store"

section \<open>Dates and sorting\<close>

text \<open>
  The handlers use the runtime's \<^verbatim>\<open>Date\<close>, whose parsing and local calendar are not
  part of the repository; they are a parameter of the model.
  \<^item> \<open>getTime env v\<close> is \<^verbatim>\<open>new Date(v).getTime()\<close>, \<open>None\<close> for \<^verbatim>\<open>NaN\<close>
    (an invalid date);
  \<^item> \<open>toDateString env t\<close> is the calendar-day string of the valid time value \<open>t\<close>;
  \<^item> \<open>toISOString env t\<close> is its ISO text.
  A clock reading (\<^verbatim>\<open>Date.now()\<close>, \<^verbatim>\<open>new Date()\<close>) is a whole number of
  milliseconds, of magnitude at most 8.64e15 and so printed in plain decimal; every
  reading a handler takes is an argument of its own.
\<close>

record dates =
  getTime :: "json \<Rightarrow> int option"
  toDateString :: "int \<Rightarrow> string"
  toISOString :: "int \<Rightarrow> string"

text \<open>\<^verbatim>\<open>new Date(v).toDateString()\<close>, for a property \<open>v\<close> that may be undefined.\<close>

definition dateStringOf :: "dates \<Rightarrow> json option \<Rightarrow> string" where
  "dateStringOf env v =
     (case v of
        None \<Rightarrow> ''Invalid Date''
      | Some x \<Rightarrow> (case getTime env x of
                     None \<Rightarrow> ''Invalid Date''
                   | Some t \<Rightarrow> toDateString env t))"

text \<open>\<^verbatim>\<open>new Date(r.timestamp).getTime()\<close>.\<close>

definition timeOf :: "dates \<Rightarrow> json \<Rightarrow> int option" where
  "timeOf env r = (case field r ''timestamp'' of None \<Rightarrow> None | Some v \<Rightarrow> getTime env v)"

text \<open>
  The comparator \<^verbatim>\<open>(a, b) => new Date(b.timestamp).getTime() - new Date(a.timestamp).getTime()\<close>;
  the difference is \<^verbatim>\<open>NaN\<close> as soon as one date is invalid.
\<close>

definition byTimestampDesc :: "dates \<Rightarrow> json \<Rightarrow> json \<Rightarrow> int option" where
  "byTimestampDesc env a b =
     (case (timeOf env b, timeOf env a) of
        (Some tb, Some ta) \<Rightarrow> Some (tb - ta)
      | _ \<Rightarrow> None)"

text \<open>
  \<^verbatim>\<open>Array.prototype.sort(comparefn)\<close>. A \<^verbatim>\<open>NaN\<close> from the comparator counts as 0,
  and the sort is stable. For a consistent comparator this insertion sort returns the
  one list the language allows. For an inconsistent comparator the language leaves the
  order to the engine; the insertion sort then keeps a list as it is when each element
  compares at most 0 with its successor, as does an engine that begins by looking for a
  run in order. On other such lists an engine may order differently, and nothing below
  relies on the order this sort gives them.
\<close>

definition sortCompare :: "('a \<Rightarrow> 'a \<Rightarrow> int option) \<Rightarrow> 'a \<Rightarrow> 'a \<Rightarrow> int" where
  "sortCompare comparefn x y = (case comparefn x y of None \<Rightarrow> 0 | Some v \<Rightarrow> v)"

fun js_insert :: "('a \<Rightarrow> 'a \<Rightarrow> int option) \<Rightarrow> 'a \<Rightarrow> 'a list \<Rightarrow> 'a list" where
  "js_insert comparefn x [] = [x]"
| "js_insert comparefn x (y # ys) =
     (if sortCompare comparefn x y \<le> 0 then x # y # ys else y # js_insert comparefn x ys)"

definition js_sort :: "('a \<Rightarrow> 'a \<Rightarrow> int option) \<Rightarrow> 'a list \<Rightarrow> 'a list" where
  "js_sort comparefn xs = foldr (js_insert comparefn) xs []"

section \<open>The server's handlers\<close>

text \<open>
  A handler answers with a status and a JSON document (\<^verbatim>\<open>c.json(doc, status)\<close>);
  a handler that writes also returns the store it leaves behind. The body given to a
  handler is the parsed request body. An exception inside a handler is caught by its
  \<^verbatim>\<open>try\<close> block and answered with status 500.
\<close>

datatype response = Response (status: nat) (payload: json)

definition error_doc :: "string \<Rightarrow> json" where
  "error_doc msg = obj [(''error'', Some (JStr msg))]"

text \<open>The list a reply carries under a member name (empty when there is none).\<close>

definition listed :: "response \<Rightarrow> string \<Rightarrow> json list" where
  "listed r name = (case field (payload r) name of Some (JArr xs) \<Rightarrow> xs | _ \<Rightarrow> [])"

subsection \<open>GET /students\<close>

text \<open>\<^verbatim>\<open>student && student.id && student.name\<close>\<close>

definition validStudent :: "json \<Rightarrow> bool" where
  "validStudent student \<longleftrightarrow>
     truthy (Some student) \<and> truthy (field student ''id'') \<and> truthy (field student ''name'')"

definition get_students :: "kv \<Rightarrow> response" where
  "get_students store =
     (let students = kv_getByPrefix store ''student:'';
          validStudents = filter validStudent (map snd students)
      in Response 200 (obj [(''students'', Some (JArr validStudents))]))"

subsection \<open>POST /students\<close>

text \<open>
  Destructuring \<^verbatim>\<open>const { name, ... } = body\<close> throws when the body is
  \<^verbatim>\<open>null\<close>. \<open>now1\<close> is the reading of \<^verbatim>\<open>Date.now()\<close> for the id, \<open>now2\<close> that of
  \<^verbatim>\<open>new Date()\<close> for \<^verbatim>\<open>createdAt\<close>.
\<close>

definition newStudent :: "dates \<Rightarrow> int \<Rightarrow> int \<Rightarrow> json \<Rightarrow> json" where
  "newStudent env now1 now2 body =
     (let name = field body ''name'';
          email = field body ''email'';
          studentNumber = field body ''studentNumber'';
          country = field body ''country'';
          studentId = ''STU'' @ show_int now1
      in obj [(''id'', Some (JStr studentId)),
              (''name'', name),
              (''email'', email),
              (''studentNumber'', studentNumber),
              (''country'', if truthy country then country else Some (JStr [])),
              (''qrCode'', Some (JStr studentId)),
              (''createdAt'', Some (JStr (toISOString env now2)))])"

definition post_students :: "dates \<Rightarrow> int \<Rightarrow> int \<Rightarrow> kv \<Rightarrow> json \<Rightarrow> response \<times> kv" where
  "post_students env now1 now2 store body =
     (if body = JNull then (Response 500 (error_doc ''Failed to create student''), store)
      else
        let name = field body ''name'';
            email = field body ''email'';
            studentNumber = field body ''studentNumber''
        in if \<not> truthy name \<or> \<not> truthy email \<or> \<not> truthy studentNumber
           then (Response 400 (error_doc ''Missing required fields''), store)
           else
             let studentId = ''STU'' @ show_int now1;
                 student = newStudent env now1 now2 body
             in (Response 200 (obj [(''student'', Some student)]),
                 kv_set store (''student:'' @ studentId) student))"

subsection \<open>PUT /students/:id\<close>

definition put_student :: "kv \<Rightarrow> string \<Rightarrow> json \<Rightarrow> response \<times> kv" where
  "put_student store studentId body =
     (case kv_get store (''student:'' @ studentId) of
        None \<Rightarrow> (Response 404 (error_doc ''Student not found''), store)
      | Some existingStudent \<Rightarrow>
          if \<not> truthy (Some existingStudent)
          then (Response 404 (error_doc ''Student not found''), store)
          else
            let updatedStudent = spread2 existingStudent body
            in (Response 200 (obj [(''student'', Some updatedStudent)]),
                kv_set store (''student:'' @ studentId) updatedStudent))"

subsection \<open>DELETE /students/:id\<close>




subsection \<open>GET /attendance\<close>

text \<open>\<^verbatim>\<open>record && record.id && record.studentId && record.timestamp\<close>\<close>

definition validRecord :: "json \<Rightarrow> bool" where
  "validRecord record \<longleftrightarrow>
     truthy (Some record) \<and> truthy (field record ''id'') \<and>
     truthy (field record ''studentId'') \<and> truthy (field record ''timestamp'')"

definition get_attendance :: "dates \<Rightarrow> kv \<Rightarrow> response" where
  "get_attendance env store =
     (let records = kv_getByPrefix store ''attendance:'';
          validRecords = filter validRecord (map snd records)
      in Response 200
           (obj [(''attendanceRecords'',
                  Some (JArr (js_sort (byTimestampDesc env) validRecords)))]))"

subsection \<open>POST /attendance/checkin\<close>

text \<open>
  \<^verbatim>\<open>item && item.value && item.value.qrCode && item.value.id && item.value.name\<close>
\<close>

definition validStudentItem :: "string \<times> json \<Rightarrow> bool" where
  "validStudentItem item \<longleftrightarrow>
     truthy (Some (snd item)) \<and> truthy (field (snd item) ''qrCode'') \<and>
     truthy (field (snd item) ''id'') \<and> truthy (field (snd item) ''name'')"

text \<open>
  \<^verbatim>\<open>record && record.value && record.value.studentId && record.value.timestamp\<close>
\<close>

definition validAttendanceItem :: "string \<times> json \<Rightarrow> bool" where
  "validAttendanceItem record \<longleftrightarrow>
     truthy (Some (snd record)) \<and> truthy (field (snd record) ''studentId'') \<and>
     truthy (field (snd record) ''timestamp'')"

text \<open>The student a scanned code stands for: the first valid row with that \<^verbatim>\<open>qrCode\<close>.\<close>

definition findStudent :: "kv \<Rightarrow> json option \<Rightarrow> (string \<times> json) option" where
  "findStudent store qrCode =
     (let students = kv_getByPrefix store ''student:'';
          validStudents = filter validStudentItem students
      in find (\<lambda>item. strict_eq (field (snd item) ''qrCode'') qrCode) validStudents)"

text \<open>The search for a record of that student on the day \<open>today\<close>.\<close>

definition isTodayRecord :: "dates \<Rightarrow> json option \<Rightarrow> string \<Rightarrow> string \<times> json \<Rightarrow> bool" where
  "isTodayRecord env studentId today record \<longleftrightarrow>
     strict_eq (field (snd record) ''studentId'') studentId \<and>
     dateStringOf env (field (snd record) ''timestamp'') = today"

definition findTodayRecord ::
  "dates \<Rightarrow> kv \<Rightarrow> json option \<Rightarrow> string \<Rightarrow> (string \<times> json) option" where
  "findTodayRecord env store studentId today =
     (let attendanceRecords = kv_getByPrefix store ''attendance:'';
          validAttendanceRecords = filter validAttendanceItem attendanceRecords
      in find (isTodayRecord env studentId today) validAttendanceRecords)"

text \<open>
  The record a successful check-in writes. \<open>now2\<close> is the reading of \<^verbatim>\<open>Date.now()\<close>
  for the id, \<open>now3\<close> that of \<^verbatim>\<open>new Date()\<close> for the timestamp.
\<close>

definition newAttendanceRecord :: "dates \<Rightarrow> int \<Rightarrow> int \<Rightarrow> json \<Rightarrow> json" where
  "newAttendanceRecord env now2 now3 student =
     obj [(''id'', Some (JStr (''ATT'' @ show_int now2))),
          (''studentId'', field student ''id''),
          (''timestamp'', Some (JStr (toISOString env now3))),
          (''status'', Some (JStr ''present''))]"

text \<open>\<open>now1\<close> is the reading of \<^verbatim>\<open>new Date()\<close> that gives \<^verbatim>\<open>today\<close>.\<close>

definition alreadyCheckedIn :: "json \<Rightarrow> response" where
  "alreadyCheckedIn student =
     Response 409
       (obj [(''error'', Some (JStr ''Already checked in'')),
             (''message'',
              Some (JStr (template (field student ''name'') @
                          '' has already checked in today''))),
             (''student'', Some student)])"

definition checkedIn :: "json \<Rightarrow> json \<Rightarrow> response" where
  "checkedIn student attendanceRecord =
     Response 200
       (obj [(''success'', Some (JBool True)),
             (''message'',
              Some (JStr (template (field student ''name'') @ '' checked in successfully!''))),
             (''student'', Some student),
             (''attendanceRecord'', Some attendanceRecord)])"

definition post_checkin ::
  "dates \<Rightarrow> int \<Rightarrow> int \<Rightarrow> int \<Rightarrow> kv \<Rightarrow> json \<Rightarrow> response \<times> kv" where
  "post_checkin env now1 now2 now3 store body =
     (if body = JNull then (Response 500 (error_doc ''Failed to check in student''), store)
      else
        let qrCode = field body ''qrCode''
        in if \<not> truthy qrCode
           then (Response 400 (error_doc ''QR code is required''), store)
           else
             (case findStudent store qrCode of
                None \<Rightarrow> (Response 404 (error_doc ''Student not found''), store)
              | Some student \<Rightarrow>
                  let today = toDateString env now1
                  in (case findTodayRecord env store (field (snd student) ''id'') today of
                        Some todayRecord \<Rightarrow> (alreadyCheckedIn (snd student), store)
                      | None \<Rightarrow>
                          let attendanceId = ''ATT'' @ show_int now2;
                              attendanceRecord = newAttendanceRecord env now2 now3 (snd student)
                          in (checkedIn (snd student) attendanceRecord,
                              kv_set store (''attendance:'' @ attendanceId) attendanceRecord))))"

subsection \<open>GET /attendance/today\<close>

text \<open>\<^verbatim>\<open>new Date(record.timestamp).toDateString() === today\<close>\<close>

definition datedToday :: "dates \<Rightarrow> string \<Rightarrow> json \<Rightarrow> bool" where
  "datedToday env today record \<longleftrightarrow> dateStringOf env (field record ''timestamp'') = today"

definition get_attendance_today :: "dates \<Rightarrow> int \<Rightarrow> kv \<Rightarrow> response" where
  "get_attendance_today env now store =
     (let today = toDateString env now;
          records = kv_getByPrefix store ''attendance:'';
          todayRecords =
            js_sort (byTimestampDesc env)
              (filter (\<lambda>record. validRecord record \<and> datedToday env today record)
                 (map snd records))
      in Response 200 (obj [(''attendanceRecords'', Some (JArr todayRecords))]))"

section \<open>The client's wrapper\<close>

text \<open>
  \<^verbatim>\<open>studentAPI.getAll\<close> requests GET /students, takes \<^verbatim>\<open>response.students || []\<close>
  and filters it with \<^verbatim>\<open>student && student.id && student.name && student.email\<close>;
  any failure (a status that is not ok, a reply without a list) gives the empty list.
\<close>

definition validClientStudent :: "json \<Rightarrow> bool" where
  "validClientStudent student \<longleftrightarrow>
     truthy (Some student) \<and> truthy (field student ''id'') \<and>
     truthy (field student ''name'') \<and> truthy (field student ''email'')"

definition studentAPI_getAll :: "kv \<Rightarrow> json list" where
  "studentAPI_getAll store =
     (let response = get_students store
      in if 200 \<le> status response \<and> status response < 300
         then (case field (payload response) ''students'' of
                 Some (JArr students) \<Rightarrow> filter validClientStudent students
               | _ \<Rightarrow> [])
         else [])"

section \<open>A sample of the date parameter\<close>

text \<open>
  The worked examples below need one concrete \<^verbatim>\<open>Date\<close>. This one keeps the calendar
  in UTC, writes the ISO text as \<^verbatim>\<open>toISOString\<close> does for the years 0 to 9999,
  reads a number of magnitude at most 8.64e15 as a time value and a string only in that
  ISO form; any other value is an invalid date.
\<close>

definition pad :: "nat \<Rightarrow> int \<Rightarrow> string" where
  "pad w n = replicate (w - length (show_int n)) CHR ''0'' @ show_int n"

text \<open>Year, month and day of a day number counted from 1970-01-01, and back.\<close>

definition civil_from_days :: "int \<Rightarrow> int \<times> int \<times> int" where
  "civil_from_days z0 =
     (let z = z0 + 719468;
          era = z div 146097;
          doe = z mod 146097;
          yoe = (doe - doe div 1460 + doe div 36524 - doe div 146096) div 365;
          doy = doe - (365 * yoe + yoe div 4 - yoe div 100);
          mp = (5 * doy + 2) div 153;
          d = doy - (153 * mp + 2) div 5 + 1;
          m = (if mp < 10 then mp + 3 else mp - 9);
          y = yoe + era * 400 + (if m \<le> 2 then 1 else 0)
      in (y, m, d))"

definition days_from_civil :: "int \<Rightarrow> int \<Rightarrow> int \<Rightarrow> int" where
  "days_from_civil y0 m d =
     (let y = (if m \<le> 2 then y0 - 1 else y0);
          era = y div 400;
          yoe = y mod 400;
          doy = (153 * (if 2 < m then m - 3 else m + 9) + 2) div 5 + d - 1;
          doe = yoe * 365 + yoe div 4 - yoe div 100 + doy
      in era * 146097 + doe - 719468)"

definition iso_text :: "int \<Rightarrow> string" where
  "iso_text t =
     (let (y, m, d) = civil_from_days (t div 86400000);
          ms = t mod 86400000
      in pad 4 y @ ''-'' @ pad 2 m @ ''-'' @ pad 2 d @ ''T'' @
         pad 2 (ms div 3600000) @ '':'' @ pad 2 (ms div 60000 mod 60) @ '':'' @
         pad 2 (ms div 1000 mod 60) @ ''.'' @ pad 3 (ms mod 1000) @ ''Z'')"

definition day_text :: "int \<Rightarrow> string" where
  "day_text t =
     (let days = t div 86400000;
          (y, m, d) = civil_from_days days
      in [''Thu'', ''Fri'', ''Sat'', ''Sun'', ''Mon'', ''Tue'', ''Wed''] ! nat (days mod 7) @ '' '' @
         [''Jan'', ''Feb'', ''Mar'', ''Apr'', ''May'', ''Jun'',
          ''Jul'', ''Aug'', ''Sep'', ''Oct'', ''Nov'', ''Dec''] ! nat (m - 1) @ '' '' @
         pad 2 d @ '' '' @ pad 4 y)"

definition read_digit :: "char \<Rightarrow> int option" where
  "read_digit c =
     map_of [(CHR ''0'', 0), (CHR ''1'', 1), (CHR ''2'', 2), (CHR ''3'', 3), (CHR ''4'', 4),
             (CHR ''5'', 5), (CHR ''6'', 6), (CHR ''7'', 7), (CHR ''8'', 8), (CHR ''9'', 9)] c"

fun read_digits :: "int \<Rightarrow> string \<Rightarrow> int option" where
  "read_digits acc [] = Some acc"
| "read_digits acc (c # cs) =
     (case read_digit c of None \<Rightarrow> None | Some d \<Rightarrow> read_digits (10 * acc + d) cs)"

definition parse_iso :: "string \<Rightarrow> int option" where
  "parse_iso s =
     (if length s = 24 \<and> map (\<lambda>i. s ! i) [4, 7, 10, 13, 16, 19, 23] = ''--T::.Z''
      then
        (case map (read_digits 0)
                [take 4 s, take 2 (drop 5 s), take 2 (drop 8 s), take 2 (drop 11 s),
                 take 2 (drop 14 s), take 2 (drop 17 s), take 3 (drop 20 s)] of
           [Some y, Some m, Some d, Some h, Some mi, Some sec, Some ms] \<Rightarrow>
             if 1 \<le> m \<and> m \<le> 12 \<and> 1 \<le> d \<and> d \<le> 31 \<and> h < 24 \<and> mi < 60 \<and> sec < 60
             then Some (days_from_civil y m d * 86400000 + h * 3600000 + mi * 60000 +
                        sec * 1000 + ms)
             else None
         | _ \<Rightarrow> None)
      else None)"

definition utc_dates :: dates where
  "utc_dates =
     \<lparr> getTime = (\<lambda>v. case v of
                       JNum n \<Rightarrow> if \<bar>number_value n\<bar> \<le> 8640000000000000
                                 then Some (number_value n) else None
                     | JStr s \<Rightarrow> parse_iso s
                     | _ \<Rightarrow> None),
       toDateString = day_text,
       toISOString = iso_text \<rparr>"

section \<open>Sample data\<close>

text \<open>
  Two of the students and one of the attendance records that the server's sample data
  holds, dated 2026-11-03. The clock readings used with them are
  1793702400123 (2026-11-03T10:40:00.123Z) and 1793706000123 (one hour later).
\<close>

definition alice :: json where
  "alice = JObj [(''id'', JStr ''STU001''), (''name'', JStr ''Alice Johnson''),
                 (''email'', JStr ''alice.johnson@school.edu''),
                 (''studentNumber'', JStr ''2021001''), (''country'', JStr ''United States''),
                 (''qrCode'', JStr ''STU001''),
                 (''createdAt'', JStr ''2026-11-03T08:00:00.000Z'')]"

definition bob :: json where
  "bob = JObj [(''id'', JStr ''STU002''), (''name'', JStr ''Bob Smith''),
               (''email'', JStr ''bob.smith@school.edu''),
               (''studentNumber'', JStr ''2021002''), (''country'', JStr ''Canada''),
               (''qrCode'', JStr ''STU002''),
               (''createdAt'', JStr ''2026-11-03T08:00:00.000Z'')]"

definition students_only :: kv where
  "students_only = [(''student:STU001'', alice), (''student:STU002'', bob)]"


definition idless_record :: json where
  "idless_record = JObj [(''studentId'', JStr ''STU001''),
                         (''timestamp'', JStr ''2026-11-03T08:40:00.123Z''),
                         (''status'', JStr ''present'')]"

definition bob_record :: json where
  "bob_record = JObj [(''id'', JStr ''ATT1793702400123''), (''studentId'', JStr ''STU002''),
                      (''timestamp'', JStr ''2026-11-03T10:40:00.123Z''),
                      (''status'', JStr ''present'')]"


definition with_idless :: kv where
  "with_idless = students_only @ [(''attendance:undefined'', idless_record)]"

definition with_bob :: kv where
  "with_bob = students_only @ [(''attendance:ATT1793702400123'', bob_record)]"

text \<open>
  Alice's record of 08:40 that day, a record of hers of the day before, and a record whose
  timestamp is not a date.
\<close>

definition alice_record :: json where
  "alice_record = JObj [(''id'', JStr ''ATT1793695200123''), (''studentId'', JStr ''STU001''),
                        (''timestamp'', JStr ''2026-11-03T08:40:00.123Z''),
                        (''status'', JStr ''present'')]"

definition old_record :: json where
  "old_record = JObj [(''id'', JStr ''ATT1793608800123''), (''studentId'', JStr ''STU001''),
                      (''timestamp'', JStr ''2026-11-02T08:40:00.123Z''),
                      (''status'', JStr ''present'')]"

definition garbled_record :: json where
  "garbled_record = JObj [(''id'', JStr ''ATT002''), (''studentId'', JStr ''STU002''),
                          (''timestamp'', JStr ''garbage''),
                          (''status'', JStr ''present'')]"

definition three_days :: kv where
  "three_days = students_only @
     [(''attendance:ATT1793608800123'', old_record),
      (''attendance:ATT1793695200123'', alice_record),
      (''attendance:ATT1793702400123'', bob_record)]"

definition with_garbled :: kv where
  "with_garbled = students_only @
     [(''attendance:ATT1793695200123'', alice_record),
      (''attendance:ATT002'', garbled_record),
      (''attendance:ATT1793702400123'', bob_record)]"




definition other_records :: kv where
  "other_records = students_only @
     [(''attendance:ATT1793608800123'', old_record),
      (''attendance:ATT1793702400123'', bob_record)]"



text \<open>
  Stores that updates lead to: Bob given Alice's qrCode, with Alice's record of 08:40
  stored; and Alice alone, her id replaced by an array.
\<close>

definition bob_with_alice_code :: json where
  "bob_with_alice_code =
     JObj [(''id'', JStr ''STU002''), (''name'', JStr ''Bob Smith''),
           (''email'', JStr ''bob.smith@school.edu''),
           (''studentNumber'', JStr ''2021002''), (''country'', JStr ''Canada''),
           (''qrCode'', JStr ''STU001''),
           (''createdAt'', JStr ''2026-11-03T08:00:00.000Z'')]"

definition shared_code :: kv where
  "shared_code =
     [(''student:STU001'', alice), (''student:STU002'', bob_with_alice_code),
      (''attendance:ATT1793695200123'', alice_record)]"

definition alice_array_id :: json where
  "alice_array_id =
     JObj [(''id'', JArr [JStr ''STU001'']), (''name'', JStr ''Alice Johnson''),
           (''email'', JStr ''alice.johnson@school.edu''),
           (''studentNumber'', JStr ''2021001''), (''country'', JStr ''United States''),
           (''qrCode'', JStr ''STU001''),
           (''createdAt'', JStr ''2026-11-03T08:00:00.000Z'')]"

definition array_id :: kv where
  "array_id = [(''student:STU001'', alice_array_id)]"

text \<open>Student rows that are not complete: one without a name, one without an email, one null.\<close>

definition nameless :: json where
  "nameless = JObj [(''id'', JStr ''STU003''), (''email'', JStr ''carol.davis@school.edu'')]"

definition no_email :: json where
  "no_email = JObj [(''id'', JStr ''STU004''), (''name'', JStr ''David Wilson'')]"

definition mixed_students :: kv where
  "mixed_students = students_only @
     [(''student:STU003'', nameless), (''student:STU004'', no_email),
      (''student:STU005'', JNull)]"

section \<open>Facts about the model\<close>

lemma field_obj_Cons:
  "field (obj ((k, v) # ms)) name =
     (case v of
        None \<Rightarrow> field (obj ms) name
      | Some x \<Rightarrow> if k = name then Some x else field (obj ms) name)"
  by (cases v) (simp_all add: field_def obj_def map_filter_simps)

lemma field_obj_Nil: "field (obj []) name = None"
  by (simp add: field_def obj_def map_filter_simps)

lemma truthy_Some: "truthy v \<Longrightarrow> \<exists>x. v = Some x"
  by (cases v) simp_all

lemma field_JNull: "field JNull name = None"
  by (simp add: field_def)

lemma kv_get_kv_set: "kv_get (kv_set store key v) key = Some v"
  by (simp add: kv_get_def kv_set_def update_conv')

lemma strict_eq_JStr: "strict_eq v (Some (JStr s)) \<longleftrightarrow> v = Some (JStr s)"
  by (cases "(v, Some (JStr s))" rule: strict_eq.cases) auto

lemma field_Some_truthy: "field v name = Some x \<Longrightarrow> truthy (Some v)"
  by (cases v) (auto simp add: field_def)

section \<open>Creating a student\<close>

lemma newStudent_fields:
  assumes "truthy (field body ''name'')" and "truthy (field body ''email'')"
    and "truthy (field body ''studentNumber'')"
  shows "field (newStudent env now1 now2 body) ''id'' = Some (JStr (''STU'' @ show_int now1))"
    and "field (newStudent env now1 now2 body) ''qrCode'' = Some (JStr (''STU'' @ show_int now1))"
    and "field (newStudent env now1 now2 body) ''createdAt'' =
           Some (JStr (toISOString env now2))"
proof -
  obtain n e sn where "field body ''name'' = Some n" and "field body ''email'' = Some e"
    and "field body ''studentNumber'' = Some sn"
    using assms by (meson truthy_Some)
  moreover obtain c where
    "(if truthy (field body ''country'') then field body ''country'' else Some (JStr [])) = Some c"
    by (cases "truthy (field body ''country'')") (auto dest: truthy_Some)
  ultimately show
    "field (newStudent env now1 now2 body) ''id'' = Some (JStr (''STU'' @ show_int now1))"
    "field (newStudent env now1 now2 body) ''qrCode'' = Some (JStr (''STU'' @ show_int now1))"
    "field (newStudent env now1 now2 body) ''createdAt'' = Some (JStr (toISOString env now2))"
    by (simp_all add: newStudent_def Let_def field_obj_Cons)
qed

text \<open>
  C8, as the handler has it. For a body other than the JSON literal \<^verbatim>\<open>null\<close>: a
  POST /students whose body carries a name, an email and a student number answers 200
  with the student it has stored under \<^verbatim>\<open>student:<id>\<close>; the id is \<^verbatim>\<open>STU\<close> followed
  by the clock reading taken for it, the qrCode is the id, and createdAt is the ISO text
  of the clock reading taken for it. When one of the three is missing the answer is 400
  and the store is left as it was.
\<close>

theorem post_students_creates:
  assumes "body \<noteq> JNull"
  shows "if truthy (field body ''name'') \<and> truthy (field body ''email'') \<and>
            truthy (field body ''studentNumber'')
         then post_students env now1 now2 store body =
                (Response 200 (obj [(''student'', Some (newStudent env now1 now2 body))]),
                 kv_set store (''student:'' @ ''STU'' @ show_int now1)
                   (newStudent env now1 now2 body)) \<and>
              kv_get (snd (post_students env now1 now2 store body))
                (''student:'' @ ''STU'' @ show_int now1) = Some (newStudent env now1 now2 body) \<and>
              field (newStudent env now1 now2 body) ''id'' =
                Some (JStr (''STU'' @ show_int now1)) \<and>
              field (newStudent env now1 now2 body) ''qrCode'' =
                field (newStudent env now1 now2 body) ''id'' \<and>
              field (newStudent env now1 now2 body) ''createdAt'' =
                Some (JStr (toISOString env now2))
         else post_students env now1 now2 store body =
                (Response 400 (error_doc ''Missing required fields''), store)"
proof (cases "truthy (field body ''name'') \<and> truthy (field body ''email'') \<and>
              truthy (field body ''studentNumber'')")
  case True
  then have run: "post_students env now1 now2 store body =
      (Response 200 (obj [(''student'', Some (newStudent env now1 now2 body))]),
       kv_set store (''student:'' @ ''STU'' @ show_int now1) (newStudent env now1 now2 body))"
    using assms by (simp add: post_students_def Let_def)
  from True show ?thesis
    by (simp add: run kv_get_kv_set newStudent_fields)
next
  case False
  then have "post_students env now1 now2 store body =
      (Response 400 (error_doc ''Missing required fields''), store)"
    using assms by (auto simp add: post_students_def Let_def)
  with False show ?thesis by simp
qed

text \<open>
  The scenario of the spec, at 2026-11-03T10:40:00.123Z on an empty store, and the same
  request without its email.
\<close>

theorem post_students_creates_witness:
  "post_students utc_dates 1793702400123 1793702400123 []
     (JObj [(''name'', JStr ''X''), (''email'', JStr ''x@y.com''), (''studentNumber'', JStr ''1'')]) =
   (Response 200 (JObj [(''student'',
      JObj [(''id'', JStr ''STU1793702400123''), (''name'', JStr ''X''),
            (''email'', JStr ''x@y.com''), (''studentNumber'', JStr ''1''),
            (''country'', JStr []), (''qrCode'', JStr ''STU1793702400123''),
            (''createdAt'', JStr ''2026-11-03T10:40:00.123Z'')])]),
    [(''student:STU1793702400123'',
      JObj [(''id'', JStr ''STU1793702400123''), (''name'', JStr ''X''),
            (''email'', JStr ''x@y.com''), (''studentNumber'', JStr ''1''),
            (''country'', JStr []), (''qrCode'', JStr ''STU1793702400123''),
            (''createdAt'', JStr ''2026-11-03T10:40:00.123Z'')])]) \<and>
   post_students utc_dates 1793702400123 1793702400123 []
     (JObj [(''name'', JStr ''X''), (''studentNumber'', JStr ''1'')]) =
   (Response 400 (JObj [(''error'', JStr ''Missing required fields'')]), [])"
proof -
  let ?full = "JObj [(''name'', JStr ''X''), (''email'', JStr ''x@y.com''),
                     (''studentNumber'', JStr ''1'')]"
  let ?part = "JObj [(''name'', JStr ''X''), (''studentNumber'', JStr ''1'')]"
  have full: "truthy (field ?full ''name'') \<and> truthy (field ?full ''email'') \<and>
              truthy (field ?full ''studentNumber'')"
    by (simp add: field_def)
  have part: "\<not> truthy (field ?part ''email'')"
    by (simp add: field_def)
  have student: "newStudent utc_dates 1793702400123 1793702400123 ?full =
      JObj [(''id'', JStr ''STU1793702400123''), (''name'', JStr ''X''),
            (''email'', JStr ''x@y.com''), (''studentNumber'', JStr ''1''),
            (''country'', JStr []), (''qrCode'', JStr ''STU1793702400123''),
            (''createdAt'', JStr ''2026-11-03T10:40:00.123Z'')]"
    by code_simp
  have "post_students utc_dates 1793702400123 1793702400123 [] ?full =
      (Response 200 (obj [(''student'',
          Some (newStudent utc_dates 1793702400123 1793702400123 ?full))]),
       kv_set [] (''student:'' @ ''STU'' @ show_int 1793702400123)
         (newStudent utc_dates 1793702400123 1793702400123 ?full))"
    using post_students_creates [of ?full utc_dates 1793702400123 1793702400123 "[]"] full
    by simp
  moreover have "show_int 1793702400123 = ''1793702400123''"
    by code_simp
  moreover have "post_students utc_dates 1793702400123 1793702400123 [] ?part =
      (Response 400 (error_doc ''Missing required fields''), [])"
    using post_students_creates [of ?part utc_dates 1793702400123 1793702400123 "[]"] part
    by simp
  ultimately show ?thesis
    by (simp add: student obj_def map_filter_simps error_doc_def kv_set_def)
qed

text \<open>
  A body that is the JSON literal \<^verbatim>\<open>null\<close> carries none of the three fields, and is
  answered 500, not 400: destructuring it throws before the fields are looked at.
\<close>

theorem post_students_null_body:
  "field JNull ''name'' = None \<and> field JNull ''email'' = None \<and>
   field JNull ''studentNumber'' = None \<and>
   post_students utc_dates 1793702400123 1793702400123 [] JNull =
   (Response 500 (JObj [(''error'', JStr ''Failed to create student'')]), [])"
  by code_simp

section \<open>Checking in\<close>

lemma truthy_field_not_JNull: "truthy (field body name) \<Longrightarrow> body \<noteq> JNull"
  by (auto simp add: field_JNull)

lemma findStudent_None:
  assumes "\<forall>item \<in> set (kv_getByPrefix store ''student:'').
             validStudentItem item \<longrightarrow> \<not> strict_eq (field (snd item) ''qrCode'') qrCode"
  shows "findStudent store qrCode = None"
  using assms by (auto simp add: findStudent_def find_None_iff)

text \<open>
  C2. A check-in whose code is the qrCode of no well-formed stored student (one with
  qrCode, id and name) is answered 404 \<^verbatim>\<open>Student not found\<close>, and the store after the
  call is the store before it. The request carries a code: an absent or empty one is
  turned away with 400 before any look-up.
\<close>

theorem post_checkin_unknown_code:
  assumes "truthy (field body ''qrCode'')"
    and "\<forall>item \<in> set (kv_getByPrefix store ''student:'').
           validStudentItem item \<longrightarrow>
           \<not> strict_eq (field (snd item) ''qrCode'') (field body ''qrCode'')"
  shows "post_checkin env now1 now2 now3 store body =
           (Response 404 (error_doc ''Student not found''), store)"
proof -
  have "body \<noteq> JNull"
    using assms(1) by (rule truthy_field_not_JNull)
  moreover have "findStudent store (field body ''qrCode'') = None"
    using assms(2) by (rule findStudent_None)
  ultimately show ?thesis
    using assms(1) by (simp add: post_checkin_def)
qed

theorem post_checkin_unknown_code_witness:
  "post_checkin utc_dates 1793702400123 1793702400123 1793702400123 students_only
     (JObj [(''qrCode'', JStr ''STU999'')]) =
   (Response 404 (JObj [(''error'', JStr ''Student not found'')]), students_only)"
proof -
  let ?body = "JObj [(''qrCode'', JStr ''STU999'')]"
  have code: "truthy (field ?body ''qrCode'')"
    by (simp add: field_def)
  have unknown: "\<forall>item \<in> set (kv_getByPrefix students_only ''student:'').
           validStudentItem item \<longrightarrow>
           \<not> strict_eq (field (snd item) ''qrCode'') (field ?body ''qrCode'')"
    by code_simp
  show ?thesis
    using post_checkin_unknown_code [OF code unknown]
    by (simp add: error_doc_def obj_def map_filter_simps)
qed

lemma find_Some_holds: "find P xs = Some x \<Longrightarrow> x \<in> set xs \<and> P x"
  by (induction xs) (auto split: if_splits)

lemma find_finds: "x \<in> set xs \<Longrightarrow> P x \<Longrightarrow> \<exists>y. find P xs = Some y"
  by (induction xs) auto

lemma findStudent_valid:
  assumes "findStudent store qrCode = Some student"
  shows "student \<in> set (kv_getByPrefix store ''student:'')"
    and "validStudentItem student"
    and "strict_eq (field (snd student) ''qrCode'') qrCode"
  using find_Some_holds [OF assms [unfolded findStudent_def Let_def]] by simp_all

lemma findTodayRecord_Some:
  assumes "entry \<in> set (kv_getByPrefix store ''attendance:'')"
    and "validAttendanceItem entry"
    and "isTodayRecord env studentId today entry"
  shows "\<exists>found. findTodayRecord env store studentId today = Some found"
  unfolding findTodayRecord_def Let_def
  using assms by (intro find_finds [of entry]) simp_all

lemma post_checkin_conflict:
  assumes "truthy (field body ''qrCode'')"
    and "findStudent store (field body ''qrCode'') = Some student"
    and "entry \<in> set (kv_getByPrefix store ''attendance:'')"
    and "validAttendanceItem entry"
    and "isTodayRecord env (field (snd student) ''id'') (toDateString env now1) entry"
  shows "post_checkin env now1 now2 now3 store body = (alreadyCheckedIn (snd student), store)"
proof -
  have "body \<noteq> JNull"
    using assms(1) by (rule truthy_field_not_JNull)
  moreover obtain found where
    "findTodayRecord env store (field (snd student) ''id'') (toDateString env now1) = Some found"
    using findTodayRecord_Some [OF assms(3-5)] by blast
  ultimately show ?thesis
    using assms(1,2) by (simp add: post_checkin_def)
qed

lemma set_js_insert: "set (js_insert comparefn x xs) = insert x (set xs)"
  by (induction xs) auto

lemma set_js_sort: "set (js_sort comparefn xs) = set xs"
  by (induction xs) (simp_all add: js_sort_def set_js_insert)

lemma listed_get_attendance:
  "listed (get_attendance env store) ''attendanceRecords'' =
     js_sort (byTimestampDesc env)
       (filter validRecord (map snd (kv_getByPrefix store ''attendance:'')))"
  by (simp add: listed_def get_attendance_def field_obj_Cons)

text \<open>
  C9. The search for a record of the day asks a record for a studentId and a timestamp,
  not for an id. A stored record without an id, which GET /attendance leaves out of its
  list, therefore still counts: when it belongs to the resolved student and is dated
  today, the check-in is answered 409 \<^verbatim>\<open>Already checked in\<close>.
\<close>

theorem post_checkin_counts_record_without_id:
  assumes "truthy (field body ''qrCode'')"
    and "findStudent store (field body ''qrCode'') = Some student"
    and "entry \<in> set (kv_getByPrefix store ''attendance:'')"
    and "\<not> truthy (field (snd entry) ''id'')"
    and "truthy (Some (snd entry))"
    and "truthy (field (snd entry) ''studentId'')"
    and "truthy (field (snd entry) ''timestamp'')"
    and "isTodayRecord env (field (snd student) ''id'') (toDateString env now1) entry"
  shows "snd entry \<notin> set (listed (get_attendance env store) ''attendanceRecords'') \<and>
         post_checkin env now1 now2 now3 store body = (alreadyCheckedIn (snd student), store)"
proof
  have "\<not> validRecord (snd entry)"
    using assms(4) by (simp add: validRecord_def)
  then show "snd entry \<notin> set (listed (get_attendance env store) ''attendanceRecords'')"
    by (simp add: listed_get_attendance set_js_sort)
next
  have "validAttendanceItem entry"
    using assms(5-7) by (simp add: validAttendanceItem_def)
  with assms(1-3) show
    "post_checkin env now1 now2 now3 store body = (alreadyCheckedIn (snd student), store)"
    using assms(8) by (rule post_checkin_conflict)
qed

text \<open>
  A record of Alice of 08:40 without an id: the list of GET /attendance is empty, and her
  check-in at 10:40 is refused.
\<close>

theorem post_checkin_counts_record_without_id_witness:
  "get_attendance utc_dates with_idless =
     Response 200 (JObj [(''attendanceRecords'', JArr [])]) \<and>
   post_checkin utc_dates 1793702400123 1793702400123 1793702400123 with_idless
     (JObj [(''qrCode'', JStr ''STU001'')]) =
   (Response 409
      (JObj [(''error'', JStr ''Already checked in''),
             (''message'', JStr ''Alice Johnson has already checked in today''),
             (''student'', alice)]),
    with_idless)"
proof -
  let ?body = "JObj [(''qrCode'', JStr ''STU001'')]"
  let ?entry = "(''attendance:undefined'', idless_record)"
  have code: "truthy (field ?body ''qrCode'')"
    by (simp add: field_def)
  have student: "findStudent with_idless (field ?body ''qrCode'') = Some (''student:STU001'', alice)"
    by code_simp
  have stored: "?entry \<in> set (kv_getByPrefix with_idless ''attendance:'')"
    by code_simp
  have no_id: "\<not> truthy (field (snd ?entry) ''id'')"
    by code_simp
  have shape: "truthy (Some (snd ?entry))" "truthy (field (snd ?entry) ''studentId'')"
    "truthy (field (snd ?entry) ''timestamp'')"
    by code_simp+
  have today: "isTodayRecord utc_dates (field (snd (''student:STU001'', alice)) ''id'')
                 (toDateString utc_dates 1793702400123) ?entry"
    by code_simp
  have reply: "alreadyCheckedIn alice =
      Response 409
        (JObj [(''error'', JStr ''Already checked in''),
               (''message'', JStr ''Alice Johnson has already checked in today''),
               (''student'', alice)])"
    by (simp add: alreadyCheckedIn_def obj_def map_filter_simps alice_def field_def
        template_def)
  have all: "get_attendance utc_dates with_idless =
     Response 200 (JObj [(''attendanceRecords'', JArr [])])"
    by code_simp
  show ?thesis
    using post_checkin_counts_record_without_id
            [OF code student stored no_id shape today, of 1793702400123 1793702400123]
    by (simp add: reply all)
qed

lemma newAttendanceRecord_fields:
  "field (newAttendanceRecord env now2 now3 student) ''id'' =
     Some (JStr (''ATT'' @ show_int now2))"
  "field (newAttendanceRecord env now2 now3 student) ''studentId'' = field student ''id''"
  "field (newAttendanceRecord env now2 now3 student) ''timestamp'' =
     Some (JStr (toISOString env now3))"
  "field (newAttendanceRecord env now2 now3 student) ''status'' = Some (JStr ''present'')"
  by (simp_all add: newAttendanceRecord_def field_obj_Cons field_obj_Nil split: option.split)

lemma post_checkin_200:
  assumes "status (fst (post_checkin env now1 now2 now3 store body)) = 200"
    and "findStudent store (field body ''qrCode'') = Some student"
  shows "post_checkin env now1 now2 now3 store body =
           (checkedIn (snd student) (newAttendanceRecord env now2 now3 (snd student)),
            kv_set store (''attendance:'' @ ''ATT'' @ show_int now2)
              (newAttendanceRecord env now2 now3 (snd student)))"
  using assms
  by (auto simp add: post_checkin_def Let_def error_doc_def alreadyCheckedIn_def
      split: if_splits option.splits)

text \<open>
  C5, as the handler has it. A check-in that answers 200 returns and stores, under
  \<^verbatim>\<open>attendance:<id>\<close>, a record whose id is \<^verbatim>\<open>ATT\<close> followed by the clock reading
  taken for it, whose studentId is the id of the resolved student, whose timestamp is the
  ISO text of the clock reading taken for it, and whose status is \<^verbatim>\<open>present\<close>, never
  \<^verbatim>\<open>absent\<close> or \<^verbatim>\<open>late\<close>. The id is not compared with the ids in the store.
\<close>

theorem post_checkin_record:
  assumes "status (fst (post_checkin env now1 now2 now3 store body)) = 200"
    and "findStudent store (field body ''qrCode'') = Some student"
  shows "\<exists>attendanceRecord.
           field (payload (fst (post_checkin env now1 now2 now3 store body)))
             ''attendanceRecord'' = Some attendanceRecord \<and>
           snd (post_checkin env now1 now2 now3 store body) =
             kv_set store (''attendance:'' @ ''ATT'' @ show_int now2) attendanceRecord \<and>
           field attendanceRecord ''id'' = Some (JStr (''ATT'' @ show_int now2)) \<and>
           field attendanceRecord ''studentId'' = field (snd student) ''id'' \<and>
           field attendanceRecord ''timestamp'' = Some (JStr (toISOString env now3)) \<and>
           field attendanceRecord ''status'' = Some (JStr ''present'') \<and>
           field attendanceRecord ''status'' \<noteq> Some (JStr ''absent'') \<and>
           field attendanceRecord ''status'' \<noteq> Some (JStr ''late'')"
proof -
  let ?r = "newAttendanceRecord env now2 now3 (snd student)"
  have "field (payload (fst (post_checkin env now1 now2 now3 store body)))
          ''attendanceRecord'' = Some ?r"
    by (simp add: post_checkin_200 [OF assms] checkedIn_def field_obj_Cons)
  moreover have "snd (post_checkin env now1 now2 now3 store body) =
      kv_set store (''attendance:'' @ ''ATT'' @ show_int now2) ?r"
    by (simp add: post_checkin_200 [OF assms])
  ultimately show ?thesis
    by (intro exI [of _ ?r]) (simp add: newAttendanceRecord_fields)
qed

text \<open>
  The id is not always fresh. Bob's check-in at 10:40:00.123 has left a record with the id
  \<^verbatim>\<open>ATT1793702400123\<close>; Alice's check-in reads the same millisecond for its id, is
  answered 200 with a record of that same id, and her record takes the place of Bob's.
\<close>

theorem post_checkin_id_not_fresh:
  "kv_get with_bob ''attendance:ATT1793702400123'' = Some bob_record \<and>
   field bob_record ''id'' = Some (JStr ''ATT1793702400123'') \<and>
   post_checkin utc_dates 1793702400123 1793702400123 1793702400123 with_bob
     (JObj [(''qrCode'', JStr ''STU001'')]) =
   (Response 200
      (JObj [(''success'', JBool True),
             (''message'', JStr ''Alice Johnson checked in successfully!''),
             (''student'', alice),
             (''attendanceRecord'',
              JObj [(''id'', JStr ''ATT1793702400123''), (''studentId'', JStr ''STU001''),
                    (''timestamp'', JStr ''2026-11-03T10:40:00.123Z''),
                    (''status'', JStr ''present'')])]),
    students_only @
    [(''attendance:ATT1793702400123'',
      JObj [(''id'', JStr ''ATT1793702400123''), (''studentId'', JStr ''STU001''),
            (''timestamp'', JStr ''2026-11-03T10:40:00.123Z''),
            (''status'', JStr ''present'')])])"
  by code_simp

text \<open>Alice's check-in at 10:40:00.123 while the store holds no attendance record.\<close>

theorem post_checkin_record_witness:
  "status (fst (post_checkin utc_dates 1793702400123 1793702400123 1793702400123 students_only
      (JObj [(''qrCode'', JStr ''STU001'')]))) = 200 \<and>
   findStudent students_only (field (JObj [(''qrCode'', JStr ''STU001'')]) ''qrCode'') =
     Some (''student:STU001'', alice) \<and>
   (\<exists>attendanceRecord.
      field (payload (fst (post_checkin utc_dates 1793702400123 1793702400123 1793702400123
          students_only (JObj [(''qrCode'', JStr ''STU001'')])))) ''attendanceRecord'' =
        Some attendanceRecord \<and>
      snd (post_checkin utc_dates 1793702400123 1793702400123 1793702400123 students_only
          (JObj [(''qrCode'', JStr ''STU001'')])) =
        students_only @ [(''attendance:ATT1793702400123'', attendanceRecord)] \<and>
      field attendanceRecord ''id'' = Some (JStr ''ATT1793702400123'') \<and>
      field attendanceRecord ''studentId'' = Some (JStr ''STU001'') \<and>
      field attendanceRecord ''timestamp'' = Some (JStr ''2026-11-03T10:40:00.123Z'') \<and>
      field attendanceRecord ''status'' = Some (JStr ''present''))"
proof -
  let ?body = "JObj [(''qrCode'', JStr ''STU001'')]"
  have ok: "status (fst (post_checkin utc_dates 1793702400123 1793702400123 1793702400123
      students_only ?body)) = 200"
    by code_simp
  have student: "findStudent students_only (field ?body ''qrCode'') =
      Some (''student:STU001'', alice)"
    by code_simp
  have id: "''ATT'' @ show_int 1793702400123 = ''ATT1793702400123''"
    by code_simp
  have iso: "toISOString utc_dates 1793702400123 = ''2026-11-03T10:40:00.123Z''"
    by code_simp
  have sid: "field (snd (''student:STU001'', alice)) ''id'' = Some (JStr ''STU001'')"
    by code_simp
  have append: "\<And>r. kv_set students_only (''attendance:'' @ ''ATT1793702400123'') r =
      students_only @ [(''attendance:ATT1793702400123'', r)]"
    by (simp add: kv_set_def students_only_def)
  from post_checkin_record [OF ok student] obtain r where
    "field (payload (fst (post_checkin utc_dates 1793702400123 1793702400123 1793702400123
        students_only ?body))) ''attendanceRecord'' = Some r"
    "snd (post_checkin utc_dates 1793702400123 1793702400123 1793702400123 students_only ?body) =
       kv_set students_only (''attendance:'' @ ''ATT'' @ show_int 1793702400123) r"
    "field r ''id'' = Some (JStr (''ATT'' @ show_int 1793702400123))"
    "field r ''studentId'' = field (snd (''student:STU001'', alice)) ''id''"
    "field r ''timestamp'' = Some (JStr (toISOString utc_dates 1793702400123))"
    "field r ''status'' = Some (JStr ''present'')"
    by blast
  then have "field (payload (fst (post_checkin utc_dates 1793702400123 1793702400123
        1793702400123 students_only ?body))) ''attendanceRecord'' = Some r \<and>
      snd (post_checkin utc_dates 1793702400123 1793702400123 1793702400123 students_only ?body) =
        students_only @ [(''attendance:ATT1793702400123'', r)] \<and>
      field r ''id'' = Some (JStr ''ATT1793702400123'') \<and>
      field r ''studentId'' = Some (JStr ''STU001'') \<and>
      field r ''timestamp'' = Some (JStr ''2026-11-03T10:40:00.123Z'') \<and>
      field r ''status'' = Some (JStr ''present'')"
    unfolding id iso sid append by simp
  then show ?thesis
    using ok student by blast
qed

section \<open>Listing and updating students\<close>

lemma listed_get_students:
  "listed (get_students store) ''students'' =
     filter validStudent (map snd (kv_getByPrefix store ''student:''))"
  by (simp add: listed_def get_students_def field_obj_Cons)

lemma studentAPI_getAll_filter:
  "studentAPI_getAll store =
     filter validClientStudent (filter validStudent (map snd (kv_getByPrefix store ''student:'')))"
  by (simp add: studentAPI_getAll_def get_students_def field_obj_Cons)

text \<open>
  C3, as the handler has it. GET /students answers 200 with the stored students that are
  not null and have an id and a name, in the order of the store, and drops the others;
  it does not look at the email. The client's \<^verbatim>\<open>studentAPI.getAll\<close> then drops from
  that reply the students without an email.
\<close>

theorem get_students_filter:
  "status (get_students store) = 200 \<and>
   listed (get_students store) ''students'' =
     filter (\<lambda>student. truthy (Some student) \<and> truthy (field student ''id'') \<and>
                        truthy (field student ''name''))
       (map snd (kv_getByPrefix store ''student:'')) \<and>
   studentAPI_getAll store =
     filter (\<lambda>student. truthy (Some student) \<and> truthy (field student ''id'') \<and>
                        truthy (field student ''name'') \<and> truthy (field student ''email''))
       (map snd (kv_getByPrefix store ''student:''))"
proof -
  have "status (get_students store) = 200"
    by (simp add: get_students_def)
  moreover have "validStudent = (\<lambda>student. truthy (Some student) \<and>
      truthy (field student ''id'') \<and> truthy (field student ''name''))"
    by (rule ext) (simp add: validStudent_def)
  moreover have "(\<lambda>student. validStudent student \<and> validClientStudent student) =
      (\<lambda>student. truthy (Some student) \<and> truthy (field student ''id'') \<and>
                   truthy (field student ''name'') \<and> truthy (field student ''email''))"
    by (rule ext) (auto simp add: validStudent_def validClientStudent_def)
  ultimately show ?thesis
    by (simp add: listed_get_students studentAPI_getAll_filter conj_commute)
qed

text \<open>
  On a store with incomplete rows the handler keeps the student without an email, and the
  client's wrapper drops it.
\<close>

theorem get_students_filter_witness:
  "listed (get_students mixed_students) ''students'' = [alice, bob, no_email] \<and>
   studentAPI_getAll mixed_students = [alice, bob]"
proof -
  have "filter (\<lambda>student. truthy (Some student) \<and> truthy (field student ''id'') \<and>
                        truthy (field student ''name''))
       (map snd (kv_getByPrefix mixed_students ''student:'')) = [alice, bob, no_email]"
    by code_simp
  moreover have
    "filter (\<lambda>student. truthy (Some student) \<and> truthy (field student ''id'') \<and>
                        truthy (field student ''name'') \<and> truthy (field student ''email''))
       (map snd (kv_getByPrefix mixed_students ''student:'')) = [alice, bob]"
    by code_simp
  ultimately show ?thesis
    using get_students_filter [of mixed_students] by simp
qed

text \<open>
  A student is created at 10:40:00.123 on an empty store, and an update then blanks the
  email. GET /students still lists the student, with the empty email.
\<close>

theorem get_students_lists_student_without_email:
  "get_students
     (snd (put_student
        (snd (post_students utc_dates 1793702400123 1793702400123 []
           (JObj [(''name'', JStr ''X''), (''email'', JStr ''x@y.com''),
                  (''studentNumber'', JStr ''1'')])))
        ''STU1793702400123'' (JObj [(''email'', JStr [])]))) =
   Response 200 (JObj [(''students'',
     JArr [JObj [(''id'', JStr ''STU1793702400123''), (''name'', JStr ''X''),
                 (''email'', JStr []), (''studentNumber'', JStr ''1''),
                 (''country'', JStr []), (''qrCode'', JStr ''STU1793702400123''),
                 (''createdAt'', JStr ''2026-11-03T10:40:00.123Z'')]])])"
  by code_simp

lemma field_spread2:
  "field (spread2 a b) name = (case field b name of None \<Rightarrow> field a name | Some v \<Rightarrow> Some v)"
  by (simp add: field_def spread2_def merge_conv' map_add_def split: option.split)

lemma put_student_found:
  assumes "kv_get store (''student:'' @ studentId) = Some existing"
    and "truthy (Some existing)"
  shows "put_student store studentId body =
           (Response 200 (obj [(''student'', Some (spread2 existing body))]),
            kv_set store (''student:'' @ studentId) (spread2 existing body))"
  using assms by (simp add: put_student_def Let_def)

text \<open>
  C4, as the handler has it. An update of a stored student answers 200 and stores, under
  the same key \<^verbatim>\<open>student:<id>\<close>, the stored record merged with the body. The id of the
  record is unchanged when the body has no id member; when the body has one, its value
  becomes the id of the record.
\<close>

theorem put_student_id:
  assumes "kv_get store (''student:'' @ studentId) = Some existing"
    and "truthy (Some existing)"
  shows "\<exists>updated.
           put_student store studentId body =
             (Response 200 (obj [(''student'', Some updated)]),
              kv_set store (''student:'' @ studentId) updated) \<and>
           kv_get (snd (put_student store studentId body)) (''student:'' @ studentId) =
             Some updated \<and>
           field updated ''id'' =
             (case field body ''id'' of None \<Rightarrow> field existing ''id'' | Some v \<Rightarrow> Some v)"
  by (intro exI [of _ "spread2 existing body"])
    (simp add: put_student_found [OF assms] kv_get_kv_set field_spread2)

text \<open>Alice's email is changed; her id stays.\<close>

theorem put_student_id_witness:
  "\<exists>updated.
     put_student students_only ''STU001'' (JObj [(''email'', JStr ''alice@school.edu'')]) =
       (Response 200 (obj [(''student'', Some updated)]),
        kv_set students_only (''student:'' @ ''STU001'') updated) \<and>
     kv_get (snd (put_student students_only ''STU001''
        (JObj [(''email'', JStr ''alice@school.edu'')]))) (''student:'' @ ''STU001'') =
       Some updated \<and>
     field updated ''email'' = Some (JStr ''alice@school.edu'') \<and>
     field updated ''id'' = Some (JStr ''STU001'')"
proof -
  let ?body = "JObj [(''email'', JStr ''alice@school.edu'')]"
  have stored: "kv_get students_only (''student:'' @ ''STU001'') = Some alice"
    by code_simp
  have present: "truthy (Some alice)"
    by code_simp
  have id: "(case field ?body ''id'' of None \<Rightarrow> field alice ''id'' | Some v \<Rightarrow> Some v) =
      Some (JStr ''STU001'')"
    by code_simp
  from put_student_id [OF stored present, of ?body] obtain updated where u:
    "put_student students_only ''STU001'' ?body =
       (Response 200 (obj [(''student'', Some updated)]),
        kv_set students_only (''student:'' @ ''STU001'') updated)"
    "kv_get (snd (put_student students_only ''STU001'' ?body)) (''student:'' @ ''STU001'') =
       Some updated"
    "field updated ''id'' = Some (JStr ''STU001'')"
    unfolding id by blast
  have "kv_get (snd (put_student students_only ''STU001'' ?body)) (''student:'' @ ''STU001'') =
      Some (spread2 alice ?body)"
    by (simp add: put_student_found [OF stored present] kv_get_kv_set)
  with u(2) have "updated = spread2 alice ?body"
    by simp
  then have "field updated ''email'' = Some (JStr ''alice@school.edu'')"
    by (simp only: field_spread2) (simp add: field_def)
  with u show ?thesis
    by blast
qed

text \<open>
  An update of Alice whose body carries an id: the record stored under
  \<^verbatim>\<open>student:STU001\<close> now has the id \<^verbatim>\<open>STU002\<close>.
\<close>

theorem put_student_overwrites_id:
  "put_student students_only ''STU001'' (JObj [(''id'', JStr ''STU002'')]) =
   (Response 200 (JObj [(''student'',
      JObj [(''id'', JStr ''STU002''), (''name'', JStr ''Alice Johnson''),
            (''email'', JStr ''alice.johnson@school.edu''),
            (''studentNumber'', JStr ''2021001''), (''country'', JStr ''United States''),
            (''qrCode'', JStr ''STU001''),
            (''createdAt'', JStr ''2026-11-03T08:00:00.000Z'')])]),
    [(''student:STU001'',
      JObj [(''id'', JStr ''STU002''), (''name'', JStr ''Alice Johnson''),
            (''email'', JStr ''alice.johnson@school.edu''),
            (''studentNumber'', JStr ''2021001''), (''country'', JStr ''United States''),
            (''qrCode'', JStr ''STU001''),
            (''createdAt'', JStr ''2026-11-03T08:00:00.000Z'')]),
     (''student:STU002'', bob)])"
  by code_simp

section \<open>Listing attendance\<close>

text \<open>
  Where every timestamp is a date, the comparator orders by time, latest first, and the
  sort is the stable sort on the negated time.
\<close>

lemma sortCompare_byTimestampDesc:
  assumes "timeOf env x = Some tx" and "timeOf env y = Some ty"
  shows "sortCompare (byTimestampDesc env) x y \<le> 0 \<longleftrightarrow> ty \<le> tx"
  using assms by (simp add: sortCompare_def byTimestampDesc_def)

lemma js_insert_dated:
  assumes "timeOf env x \<noteq> None" and "\<forall>y \<in> set ys. timeOf env y \<noteq> None"
  shows "js_insert (byTimestampDesc env) x ys = insort_key (\<lambda>r. - the (timeOf env r)) x ys"
  using assms
proof (induction ys)
  case Nil
  show ?case by simp
next
  case (Cons y ys)
  from Cons.prems obtain tx ty where t: "timeOf env x = Some tx" "timeOf env y = Some ty"
    by auto
  from Cons show ?case
    by (simp add: sortCompare_byTimestampDesc [OF t] t)
qed

lemma js_sort_dated:
  assumes "\<forall>x \<in> set xs. timeOf env x \<noteq> None"
  shows "js_sort (byTimestampDesc env) xs = sort_key (\<lambda>r. - the (timeOf env r)) xs"
  using assms
proof (induction xs)
  case Nil
  show ?case by (simp add: js_sort_def)
next
  case (Cons x xs)
  then have "js_sort (byTimestampDesc env) xs = sort_key (\<lambda>r. - the (timeOf env r)) xs"
    by simp
  moreover have "js_sort (byTimestampDesc env) (x # xs) =
      js_insert (byTimestampDesc env) x (js_sort (byTimestampDesc env) xs)"
    by (simp add: js_sort_def)
  ultimately show ?case
    using Cons.prems by (simp add: js_insert_dated)
qed

lemma listed_get_attendance_today:
  "listed (get_attendance_today env now store) ''attendanceRecords'' =
     js_sort (byTimestampDesc env)
       (filter (datedToday env (toDateString env now))
          (filter validRecord (map snd (kv_getByPrefix store ''attendance:''))))"
  by (simp add: listed_def get_attendance_today_def field_obj_Cons conj_commute)

text \<open>
  C7, as the handlers have it. When the timestamp of every well-formed attendance record
  in the store is a date (as the timestamp of every record a check-in writes is), the
  list of GET /attendance/today at the clock reading \<open>now\<close> is the list of GET /attendance
  restricted to the records whose calendar day is the day of \<open>now\<close>, in the same order,
  and that order is by time, latest first.
\<close>

theorem attendance_today_of_attendance:
  assumes "\<forall>entry \<in> set (kv_getByPrefix store ''attendance:'').
             validRecord (snd entry) \<longrightarrow> timeOf env (snd entry) \<noteq> None"
  shows "listed (get_attendance_today env now store) ''attendanceRecords'' =
           filter (datedToday env (toDateString env now))
             (listed (get_attendance env store) ''attendanceRecords'') \<and>
         sorted_wrt (\<lambda>a b. \<exists>ta tb. timeOf env a = Some ta \<and> timeOf env b = Some tb \<and> tb \<le> ta)
           (listed (get_attendance env store) ''attendanceRecords'')"
proof
  let ?today = "datedToday env (toDateString env now)"
  let ?valid = "filter validRecord (map snd (kv_getByPrefix store ''attendance:''))"
  let ?key = "\<lambda>r. - the (timeOf env r)"
  have dated: "\<forall>r \<in> set ?valid. timeOf env r \<noteq> None"
    using assms by auto
  then have all: "listed (get_attendance env store) ''attendanceRecords'' = sort_key ?key ?valid"
    by (simp only: listed_get_attendance js_sort_dated)
  from dated have "\<forall>r \<in> set (filter ?today ?valid). timeOf env r \<noteq> None"
    by simp
  then have "listed (get_attendance_today env now store) ''attendanceRecords'' =
      sort_key ?key (filter ?today ?valid)"
    by (simp only: listed_get_attendance_today js_sort_dated)
  then show "listed (get_attendance_today env now store) ''attendanceRecords'' =
      filter ?today (listed (get_attendance env store) ''attendanceRecords'')"
    by (simp only: all filter_sort)
  have "sorted (map ?key (sort_key ?key ?valid))"
    by (rule sorted_sort_key)
  then have by_key: "sorted_wrt (\<lambda>a b. ?key a \<le> ?key b) (sort_key ?key ?valid)"
    by (simp add: sorted_map)
  have "sorted_wrt (\<lambda>a b. \<exists>ta tb. timeOf env a = Some ta \<and>
      timeOf env b = Some tb \<and> tb \<le> ta) (sort_key ?key ?valid)"
  proof (rule sorted_wrt_mono_rel [OF _ by_key])
    fix a b
    assume "a \<in> set (sort_key ?key ?valid)" and "b \<in> set (sort_key ?key ?valid)"
      and le: "?key a \<le> ?key b"
    then have "a \<in> set ?valid" and "b \<in> set ?valid"
      by (simp_all only: set_sort)
    with dated have "timeOf env a \<noteq> None" and "timeOf env b \<noteq> None"
      by blast+
    then obtain ta tb where "timeOf env a = Some ta" and "timeOf env b = Some tb"
      by blast
    with le show "\<exists>ta tb. timeOf env a = Some ta \<and> timeOf env b = Some tb \<and> tb \<le> ta"
      by simp
  qed
  then show "sorted_wrt (\<lambda>a b. \<exists>ta tb. timeOf env a = Some ta \<and>
      timeOf env b = Some tb \<and> tb \<le> ta)
      (listed (get_attendance env store) ''attendanceRecords'')"
    by (simp only: all)
qed

text \<open>
  At 11:40:00.123 on 2026-11-03, with a record of the day before and two of the day:
  GET /attendance lists the three, latest first, and GET /attendance/today the two of
  the day.
\<close>

theorem attendance_today_of_attendance_witness:
  "listed (get_attendance utc_dates three_days) ''attendanceRecords'' =
     [bob_record, alice_record, old_record] \<and>
   listed (get_attendance_today utc_dates 1793706000123 three_days) ''attendanceRecords'' =
     filter (datedToday utc_dates (toDateString utc_dates 1793706000123))
       (listed (get_attendance utc_dates three_days) ''attendanceRecords'') \<and>
   listed (get_attendance_today utc_dates 1793706000123 three_days) ''attendanceRecords'' =
     [bob_record, alice_record]"
proof -
  have dated: "\<forall>entry \<in> set (kv_getByPrefix three_days ''attendance:'').
      validRecord (snd entry) \<longrightarrow> timeOf utc_dates (snd entry) \<noteq> None"
    by code_simp
  have all: "listed (get_attendance utc_dates three_days) ''attendanceRecords'' =
      [bob_record, alice_record, old_record]"
    by code_simp
  have part: "filter (datedToday utc_dates (toDateString utc_dates 1793706000123))
      [bob_record, alice_record, old_record] = [bob_record, alice_record]"
    by code_simp
  from attendance_today_of_attendance [OF dated, of 1793706000123] show ?thesis
    by (simp only: all part simp_thms)
qed

text \<open>
  With a record whose timestamp is not a date between the two records of the day, each
  record compares \<^verbatim>\<open>NaN\<close> with its neighbour, GET /attendance leaves the three in the
  order of the store, earliest first, and GET /attendance/today lists the two of the day
  latest first: the other way round.
\<close>

theorem attendance_today_other_order:
  "listed (get_attendance utc_dates with_garbled) ''attendanceRecords'' =
     [alice_record, garbled_record, bob_record] \<and>
   filter (datedToday utc_dates (toDateString utc_dates 1793706000123))
     [alice_record, garbled_record, bob_record] = [alice_record, bob_record] \<and>
   listed (get_attendance_today utc_dates 1793706000123 with_garbled) ''attendanceRecords'' =
     [bob_record, alice_record]"
  by code_simp

section \<open>Deleting a student\<close>




lemma set_kv_getByPrefix:
  "set (kv_getByPrefix store p) = {row \<in> set store. prefix p (fst row)}"
  by (auto simp add: kv_getByPrefix_def)



section \<open>Check-in and the status of a record\<close>



section \<open>The cascade of a deletion\<close>



lemma student_key_not_attendance: "\<not> prefix ''attendance:'' (''student:'' @ studentId)"
  by simp




section \<open>One check-in a day\<close>

lemma kv_getByPrefix_kv_set_other:
  assumes "\<not> prefix p key"
  shows "kv_getByPrefix (kv_set store key v) p = kv_getByPrefix store p"
  using assms by (induction store) (auto simp add: kv_getByPrefix_def kv_set_def)

lemma kv_set_member: "(key, v) \<in> set (kv_set store key v)"
  by (induction store) (auto simp add: kv_set_def)

lemma filter_kv_set_single:
  assumes "\<forall>row \<in> set store. \<not> P row" and "P (key, v)"
  shows "filter P (kv_set store key v) = [(key, v)]"
  using assms by (induction store) (auto simp add: kv_set_def)

lemma findStudent_unique:
  assumes "item \<in> set (kv_getByPrefix store ''student:'')"
    and "validStudentItem item"
    and "field (snd item) ''qrCode'' = Some (JStr code)"
    and "\<forall>other \<in> set (kv_getByPrefix store ''student:'').
           validStudentItem other \<longrightarrow> field (snd other) ''qrCode'' = Some (JStr code) \<longrightarrow>
           other = item"
  shows "findStudent store (Some (JStr code)) = Some item"
proof -
  let ?valid = "filter validStudentItem (kv_getByPrefix store ''student:'')"
  let ?match = "\<lambda>item. strict_eq (field (snd item) ''qrCode'') (Some (JStr code))"
  have "item \<in> set ?valid" and "?match item"
    using assms(1-3) by (simp_all add: strict_eq_JStr)
  then obtain found where found: "find ?match ?valid = Some found"
    using find_finds [of item ?valid ?match] by blast
  then have "found \<in> set ?valid \<and> ?match found"
    by (rule find_Some_holds)
  with assms(4) have "found = item"
    by (simp add: strict_eq_JStr)
  with found show ?thesis
    by (simp add: findStudent_def)
qed

lemma findTodayRecord_None:
  assumes "\<forall>entry \<in> set (kv_getByPrefix store ''attendance:'').
             validAttendanceItem entry \<longrightarrow> \<not> isTodayRecord env studentId today entry"
  shows "findTodayRecord env store studentId today = None"
  using assms by (auto simp add: findTodayRecord_def find_None_iff)

text \<open>
  C1, as the handler has it. Let a student row be stored whose id and qrCode are
  non-empty strings and which has a name, the only well-formed student row with that
  qrCode, and let the store hold no attendance row with that studentId and a timestamp
  on the calendar day \<open>day\<close>. A check-in with the student's code on that day answers 200
  and writes one record, after which the store holds exactly one attendance row of the
  student dated \<open>day\<close>, the new one. A second check-in with the same code on the same
  day is answered 409 \<^verbatim>\<open>Already checked in\<close> and leaves the store as the first one
  left it. Of the runtime's \<^verbatim>\<open>Date\<close> the proof uses that it reads back the ISO text it
  writes.
\<close>

theorem checkin_once_a_day:
  assumes stored: "item \<in> set (kv_getByPrefix store ''student:'')"
    and name: "truthy (field (snd item) ''name'')"
    and qr: "field (snd item) ''qrCode'' = Some (JStr code)" "code \<noteq> []"
    and sid: "field (snd item) ''id'' = Some (JStr studentId)" "studentId \<noteq> []"
    and unique: "\<forall>other \<in> set (kv_getByPrefix store ''student:'').
           truthy (field (snd other) ''id'') \<and> truthy (field (snd other) ''name'') \<and>
           field (snd other) ''qrCode'' = Some (JStr code) \<longrightarrow> other = item"
    and body: "field body ''qrCode'' = Some (JStr code)"
    and norecord: "\<forall>entry \<in> set (kv_getByPrefix store ''attendance:'').
           \<not> (field (snd entry) ''studentId'' = Some (JStr studentId) \<and>
              truthy (field (snd entry) ''timestamp'') \<and>
              dateStringOf env (field (snd entry) ''timestamp'') = day)"
    and days: "toDateString env now1 = day" "toDateString env now3 = day"
      "toDateString env again1 = day"
    and iso: "getTime env (JStr (toISOString env now3)) = Some now3"
      "toISOString env now3 \<noteq> []"
  shows "post_checkin env now1 now2 now3 store body =
           (Response 200
              (obj [(''success'', Some (JBool True)),
                    (''message'',
                     Some (JStr (template (field (snd item) ''name'') @
                                 '' checked in successfully!''))),
                    (''student'', Some (snd item)),
                    (''attendanceRecord'',
                     Some (obj [(''id'', Some (JStr (''ATT'' @ show_int now2))),
                                (''studentId'', Some (JStr studentId)),
                                (''timestamp'', Some (JStr (toISOString env now3))),
                                (''status'', Some (JStr ''present''))]))]),
            kv_set store (''attendance:'' @ ''ATT'' @ show_int now2)
              (obj [(''id'', Some (JStr (''ATT'' @ show_int now2))),
                    (''studentId'', Some (JStr studentId)),
                    (''timestamp'', Some (JStr (toISOString env now3))),
                    (''status'', Some (JStr ''present''))])) \<and>
         filter (\<lambda>entry. field (snd entry) ''studentId'' = Some (JStr studentId) \<and>
                    truthy (field (snd entry) ''timestamp'') \<and>
                    dateStringOf env (field (snd entry) ''timestamp'') = day)
           (kv_getByPrefix (snd (post_checkin env now1 now2 now3 store body)) ''attendance:'') =
           [(''attendance:'' @ ''ATT'' @ show_int now2,
             obj [(''id'', Some (JStr (''ATT'' @ show_int now2))),
                  (''studentId'', Some (JStr studentId)),
                  (''timestamp'', Some (JStr (toISOString env now3))),
                  (''status'', Some (JStr ''present''))])] \<and>
         post_checkin env again1 again2 again3
             (snd (post_checkin env now1 now2 now3 store body)) body =
           (Response 409
              (obj [(''error'', Some (JStr ''Already checked in'')),
                    (''message'',
                     Some (JStr (template (field (snd item) ''name'') @
                                 '' has already checked in today''))),
                    (''student'', Some (snd item))]),
            snd (post_checkin env now1 now2 now3 store body))"
proof -
  let ?key = "''attendance:'' @ ''ATT'' @ show_int now2"
  let ?new = "obj [(''id'', Some (JStr (''ATT'' @ show_int now2))),
                   (''studentId'', Some (JStr studentId)),
                   (''timestamp'', Some (JStr (toISOString env now3))),
                   (''status'', Some (JStr ''present''))]"
  let ?after = "kv_set store ?key ?new"
  let ?own = "\<lambda>entry. field (snd entry) ''studentId'' = Some (JStr studentId) \<and>
                truthy (field (snd entry) ''timestamp'') \<and>
                dateStringOf env (field (snd entry) ''timestamp'') = day"
  have new: "newAttendanceRecord env now2 now3 (snd item) = ?new"
    by (simp add: newAttendanceRecord_def sid)
  have new_fields: "field ?new ''studentId'' = Some (JStr studentId)"
    "field ?new ''timestamp'' = Some (JStr (toISOString env now3))"
    by (simp_all add: field_obj_Cons)
  have valid: "validStudentItem item"
    using name qr sid by (simp add: validStudentItem_def field_Some_truthy [OF qr(1)])
  have code: "truthy (field body ''qrCode'')"
    using qr(2) body by simp
  then have notnull: "body \<noteq> JNull"
    by (rule truthy_field_not_JNull)
  have "\<forall>other \<in> set (kv_getByPrefix store ''student:'').
      validStudentItem other \<longrightarrow> field (snd other) ''qrCode'' = Some (JStr code) \<longrightarrow>
      other = item"
    using unique by (simp add: validStudentItem_def)
  with stored valid qr(1) have "findStudent store (Some (JStr code)) = Some item"
    by (rule findStudent_unique)
  then have student: "findStudent store (field body ''qrCode'') = Some item"
    by (simp only: body)
  have "\<forall>entry \<in> set (kv_getByPrefix store ''attendance:'').
      validAttendanceItem entry \<longrightarrow> \<not> isTodayRecord env (Some (JStr studentId)) day entry"
    using norecord by (simp add: validAttendanceItem_def isTodayRecord_def strict_eq_JStr)
  then have "findTodayRecord env store (Some (JStr studentId)) day = None"
    by (rule findTodayRecord_None)
  then have "findTodayRecord env store (field (snd item) ''id'') (toDateString env now1) = None"
    by (simp only: sid days)
  with code notnull student have first:
    "post_checkin env now1 now2 now3 store body = (checkedIn (snd item) ?new, ?after)"
    by (simp add: post_checkin_def Let_def new)
  have "truthy (Some ?new)"
    by (simp add: obj_def)
  then have shape: "validAttendanceItem (?key, ?new)"
    using iso(2) sid(2) by (simp add: validAttendanceItem_def field_obj_Cons)
  have dated: "dateStringOf env (field ?new ''timestamp'') = day"
    using iso(1) days(2) by (simp add: field_obj_Cons dateStringOf_def)
  have "\<not> (prefix ''attendance:'' (fst row) \<and> ?own row)" if "row \<in> set store" for row
  proof
    assume own: "prefix ''attendance:'' (fst row) \<and> ?own row"
    with that have "row \<in> set (kv_getByPrefix store ''attendance:'')"
      by (simp add: set_kv_getByPrefix)
    with norecord own show False
      by blast
  qed
  then have "\<forall>row \<in> set store. \<not> (prefix ''attendance:'' (fst row) \<and> ?own row)"
    by blast
  moreover have "prefix ''attendance:'' (fst (?key, ?new)) \<and> ?own (?key, ?new)"
    using dated iso(2) by (simp add: field_obj_Cons)
  ultimately have "filter (\<lambda>row. prefix ''attendance:'' (fst row) \<and> ?own row) ?after =
      [(?key, ?new)]"
    by (rule filter_kv_set_single)
  then have one: "filter ?own (kv_getByPrefix ?after ''attendance:'') = [(?key, ?new)]"
    by (simp add: kv_getByPrefix_def conj_commute)
  have "kv_getByPrefix ?after ''student:'' = kv_getByPrefix store ''student:''"
    by (rule kv_getByPrefix_kv_set_other) simp
  then have student': "findStudent ?after (field body ''qrCode'') = Some item"
    using student by (simp add: findStudent_def)
  have "(?key, ?new) \<in> set (kv_getByPrefix ?after ''attendance:'')"
    by (simp add: set_kv_getByPrefix kv_set_member)
  moreover have "isTodayRecord env (field (snd item) ''id'') (toDateString env again1)
      (?key, ?new)"
    using dated by (simp add: isTodayRecord_def sid days field_obj_Cons)
  ultimately have second:
    "post_checkin env again1 again2 again3 ?after body = (alreadyCheckedIn (snd item), ?after)"
    using code student' shape by (intro post_checkin_conflict)
  have "post_checkin env now1 now2 now3 store body =
      (Response 200
         (obj [(''success'', Some (JBool True)),
               (''message'',
                Some (JStr (template (field (snd item) ''name'') @
                            '' checked in successfully!''))),
               (''student'', Some (snd item)),
               (''attendanceRecord'', Some ?new)]),
       ?after)"
    by (simp only: first checkedIn_def)
  moreover have "filter ?own
      (kv_getByPrefix (snd (post_checkin env now1 now2 now3 store body)) ''attendance:'') =
      [(?key, ?new)]"
    by (simp only: first snd_conv one)
  moreover have "post_checkin env again1 again2 again3
      (snd (post_checkin env now1 now2 now3 store body)) body =
      (Response 409
         (obj [(''error'', Some (JStr ''Already checked in'')),
               (''message'',
                Some (JStr (template (field (snd item) ''name'') @
                            '' has already checked in today''))),
               (''student'', Some (snd item))]),
       snd (post_checkin env now1 now2 now3 store body))"
    by (simp only: first snd_conv second alreadyCheckedIn_def)
  ultimately show ?thesis
    by (intro conjI)
qed

text \<open>
  Alice scans her code at 10:50 on 2026-11-03, when the store holds a record of hers of
  the day before and a record of Bob's of that day, and again at 11:40:00.123.
\<close>

theorem checkin_once_a_day_witness:
  "post_checkin utc_dates 1793703000000 1793703000000 1793703000000 other_records
     (JObj [(''qrCode'', JStr ''STU001'')]) =
   (Response 200
      (JObj [(''success'', JBool True),
             (''message'', JStr ''Alice Johnson checked in successfully!''),
             (''student'', alice),
             (''attendanceRecord'',
              JObj [(''id'', JStr ''ATT1793703000000''), (''studentId'', JStr ''STU001''),
                    (''timestamp'', JStr ''2026-11-03T10:50:00.000Z''),
                    (''status'', JStr ''present'')])]),
    other_records @
    [(''attendance:ATT1793703000000'',
      JObj [(''id'', JStr ''ATT1793703000000''), (''studentId'', JStr ''STU001''),
            (''timestamp'', JStr ''2026-11-03T10:50:00.000Z''),
            (''status'', JStr ''present'')])]) \<and>
   filter (\<lambda>entry. field (snd entry) ''studentId'' = Some (JStr ''STU001'') \<and>
              truthy (field (snd entry) ''timestamp'') \<and>
              dateStringOf utc_dates (field (snd entry) ''timestamp'') = ''Tue Nov 03 2026'')
     (kv_getByPrefix
        (other_records @
         [(''attendance:ATT1793703000000'',
           JObj [(''id'', JStr ''ATT1793703000000''), (''studentId'', JStr ''STU001''),
                 (''timestamp'', JStr ''2026-11-03T10:50:00.000Z''),
                 (''status'', JStr ''present'')])])
        ''attendance:'') =
   [(''attendance:ATT1793703000000'',
     JObj [(''id'', JStr ''ATT1793703000000''), (''studentId'', JStr ''STU001''),
           (''timestamp'', JStr ''2026-11-03T10:50:00.000Z''),
           (''status'', JStr ''present'')])] \<and>
   post_checkin utc_dates 1793706000123 1793706000123 1793706000123
     (other_records @
      [(''attendance:ATT1793703000000'',
        JObj [(''id'', JStr ''ATT1793703000000''), (''studentId'', JStr ''STU001''),
              (''timestamp'', JStr ''2026-11-03T10:50:00.000Z''),
              (''status'', JStr ''present'')])])
     (JObj [(''qrCode'', JStr ''STU001'')]) =
   (Response 409
      (JObj [(''error'', JStr ''Already checked in''),
             (''message'', JStr ''Alice Johnson has already checked in today''),
             (''student'', alice)]),
    other_records @
    [(''attendance:ATT1793703000000'',
      JObj [(''id'', JStr ''ATT1793703000000''), (''studentId'', JStr ''STU001''),
            (''timestamp'', JStr ''2026-11-03T10:50:00.000Z''),
            (''status'', JStr ''present'')])])"
proof -
  let ?body = "JObj [(''qrCode'', JStr ''STU001'')]"
  let ?item = "(''student:STU001'', alice)"
  let ?new = "JObj [(''id'', JStr ''ATT1793703000000''), (''studentId'', JStr ''STU001''),
                    (''timestamp'', JStr ''2026-11-03T10:50:00.000Z''),
                    (''status'', JStr ''present'')]"
  have stored: "?item \<in> set (kv_getByPrefix other_records ''student:'')"
    by code_simp
  have name: "truthy (field (snd ?item) ''name'')"
    by code_simp
  have qr: "field (snd ?item) ''qrCode'' = Some (JStr ''STU001'')" "''STU001'' \<noteq> []"
    by code_simp+
  have sid: "field (snd ?item) ''id'' = Some (JStr ''STU001'')" "''STU001'' \<noteq> []"
    by code_simp+
  have unique: "\<forall>other \<in> set (kv_getByPrefix other_records ''student:'').
      truthy (field (snd other) ''id'') \<and> truthy (field (snd other) ''name'') \<and>
      field (snd other) ''qrCode'' = Some (JStr ''STU001'') \<longrightarrow> other = ?item"
    by code_simp
  have body: "field ?body ''qrCode'' = Some (JStr ''STU001'')"
    by code_simp
  have norecord: "\<forall>entry \<in> set (kv_getByPrefix other_records ''attendance:'').
      \<not> (field (snd entry) ''studentId'' = Some (JStr ''STU001'') \<and>
         truthy (field (snd entry) ''timestamp'') \<and>
         dateStringOf utc_dates (field (snd entry) ''timestamp'') = ''Tue Nov 03 2026'')"
    by code_simp
  have days: "toDateString utc_dates 1793703000000 = ''Tue Nov 03 2026''"
    "toDateString utc_dates 1793706000123 = ''Tue Nov 03 2026''"
    by code_simp+
  have iso: "getTime utc_dates (JStr (toISOString utc_dates 1793703000000)) =
      Some 1793703000000"
    "toISOString utc_dates 1793703000000 \<noteq> []"
    by code_simp+
  have new: "obj [(''id'', Some (JStr (''ATT'' @ show_int 1793703000000))),
                  (''studentId'', Some (JStr ''STU001'')),
                  (''timestamp'', Some (JStr (toISOString utc_dates 1793703000000))),
                  (''status'', Some (JStr ''present''))] = ?new"
    by code_simp
  have key: "''attendance:'' @ ''ATT'' @ show_int 1793703000000 = ''attendance:ATT1793703000000''"
    by code_simp
  have after: "kv_set other_records ''attendance:ATT1793703000000'' ?new =
      other_records @ [(''attendance:ATT1793703000000'', ?new)]"
    by code_simp
  have ok: "obj [(''success'', Some (JBool True)),
                 (''message'',
                  Some (JStr (template (field (snd ?item) ''name'') @
                              '' checked in successfully!''))),
                 (''student'', Some (snd ?item)),
                 (''attendanceRecord'', Some ?new)] =
      JObj [(''success'', JBool True),
            (''message'', JStr ''Alice Johnson checked in successfully!''),
            (''student'', alice),
            (''attendanceRecord'', ?new)]"
    by (simp add: obj_def map_filter_simps alice_def field_def template_def)
  have refused: "obj [(''error'', Some (JStr ''Already checked in'')),
                      (''message'',
                       Some (JStr (template (field (snd ?item) ''name'') @
                                   '' has already checked in today''))),
                      (''student'', Some (snd ?item))] =
      JObj [(''error'', JStr ''Already checked in''),
            (''message'', JStr ''Alice Johnson has already checked in today''),
            (''student'', alice)]"
    by (simp add: obj_def map_filter_simps alice_def field_def template_def)
  note run = checkin_once_a_day [OF stored name qr sid unique body norecord
      days(1) days(1) days(2) iso, of 1793703000000 1793706000123 1793706000123,
      unfolded new key after ok refused]
  have first: "snd (post_checkin utc_dates 1793703000000 1793703000000 1793703000000
      other_records ?body) = other_records @ [(''attendance:ATT1793703000000'', ?new)]"
    by (simp only: run [THEN conjunct1] snd_conv)
  from run [unfolded first] show ?thesis .
qed

text \<open>
  Where an update has given Bob the qrCode of Alice, who has checked in at 08:40, Bob has
  no attendance record, and a check-in with his code is refused with 409 in Alice's name.
  Where an update has made Alice's id an array, her check-in at 10:40:00.123 is answered
  200, and so is her check-in an hour later: the store then holds two records of the day.
\<close>

theorem checkin_refused_or_repeated:
  "field bob_with_alice_code ''id'' = Some (JStr ''STU002'') \<and>
   field bob_with_alice_code ''qrCode'' = Some (JStr ''STU001'') \<and>
   kv_getByPrefix shared_code ''attendance:'' =
     [(''attendance:ATT1793695200123'', alice_record)] \<and>
   field alice_record ''studentId'' = Some (JStr ''STU001'') \<and>
   post_checkin utc_dates 1793702400123 1793702400123 1793702400123 shared_code
     (JObj [(''qrCode'', JStr ''STU001'')]) =
   (Response 409
      (JObj [(''error'', JStr ''Already checked in''),
             (''message'', JStr ''Alice Johnson has already checked in today''),
             (''student'', alice)]),
    shared_code) \<and>
   post_checkin utc_dates 1793702400123 1793702400123 1793702400123 array_id
     (JObj [(''qrCode'', JStr ''STU001'')]) =
   (Response 200
      (JObj [(''success'', JBool True),
             (''message'', JStr ''Alice Johnson checked in successfully!''),
             (''student'', alice_array_id),
             (''attendanceRecord'',
              JObj [(''id'', JStr ''ATT1793702400123''),
                    (''studentId'', JArr [JStr ''STU001'']),
                    (''timestamp'', JStr ''2026-11-03T10:40:00.123Z''),
                    (''status'', JStr ''present'')])]),
    [(''student:STU001'', alice_array_id),
     (''attendance:ATT1793702400123'',
      JObj [(''id'', JStr ''ATT1793702400123''), (''studentId'', JArr [JStr ''STU001'']),
            (''timestamp'', JStr ''2026-11-03T10:40:00.123Z''),
            (''status'', JStr ''present'')])]) \<and>
   post_checkin utc_dates 1793706000123 1793706000123 1793706000123
     [(''student:STU001'', alice_array_id),
      (''attendance:ATT1793702400123'',
       JObj [(''id'', JStr ''ATT1793702400123''), (''studentId'', JArr [JStr ''STU001'']),
             (''timestamp'', JStr ''2026-11-03T10:40:00.123Z''),
             (''status'', JStr ''present'')])]
     (JObj [(''qrCode'', JStr ''STU001'')]) =
   (Response 200
      (JObj [(''success'', JBool True),
             (''message'', JStr ''Alice Johnson checked in successfully!''),
             (''student'', alice_array_id),
             (''attendanceRecord'',
              JObj [(''id'', JStr ''ATT1793706000123''),
                    (''studentId'', JArr [JStr ''STU001'']),
                    (''timestamp'', JStr ''2026-11-03T11:40:00.123Z''),
                    (''status'', JStr ''present'')])]),
    [(''student:STU001'', alice_array_id),
     (''attendance:ATT1793702400123'',
      JObj [(''id'', JStr ''ATT1793702400123''), (''studentId'', JArr [JStr ''STU001'']),
            (''timestamp'', JStr ''2026-11-03T10:40:00.123Z''),
            (''status'', JStr ''present'')]),
     (''attendance:ATT1793706000123'',
      JObj [(''id'', JStr ''ATT1793706000123''), (''studentId'', JArr [JStr ''STU001'']),
            (''timestamp'', JStr ''2026-11-03T11:40:00.123Z''),
            (''status'', JStr ''present'')])])"
  by code_simp

end
